theory Spec2Isabelle
  imports Complex_Main "HOL-Library.Multiset"
begin

section \<open>JavaScript strings and the month path parameter\<close>

text \<open>
  The route parameter \<open>req.params.month\<close> is a JavaScript string: a sequence of UTF-16
  code units, modelled as a list of naturals. \<open>js\<close> writes an ASCII literal as such a
  string.
\<close>

type_synonym js_string = "nat list"

definition js :: "string \<Rightarrow> js_string" where
  "js s = map of_char s"

text \<open>
  \<open>parseInt(month)\<close> with no radix (ECMAScript, the global \<open>parseInt\<close>): leading
  white space and line terminators are trimmed, one sign is read, a prefix \<open>0x\<close> or
  \<open>0X\<close> switches to radix 16, and the longest prefix of digits of the radix is the
  number; everything after it is ignored. No digit at all gives \<open>NaN\<close>, here \<open>None\<close>.
  The result is kept as the mathematical integer: the conversion to a double is monotone
  and exact on the integers of magnitude at most \<open>2 ^ 53\<close>, so the comparisons with 1
  and 12 that follow are decided by the integer.
\<close>

definition StrWhiteSpaceChar :: "nat \<Rightarrow> bool" where
  "StrWhiteSpaceChar c \<longleftrightarrow>
     c = 9 \<or> c = 10 \<or> c = 11 \<or> c = 12 \<or> c = 13 \<or> c = 32 \<or> c = 160 \<or> c = 5760 \<or>
     (8192 \<le> c \<and> c \<le> 8202) \<or> c = 8232 \<or> c = 8233 \<or> c = 8239 \<or> c = 8287 \<or>
     c = 12288 \<or> c = 65279"

definition digit_value :: "nat \<Rightarrow> nat \<Rightarrow> nat option" where
  "digit_value R c =
     (if 48 \<le> c \<and> c \<le> 57 \<and> c - 48 < R then Some (c - 48)
      else if 97 \<le> c \<and> c \<le> 122 \<and> c - 87 < R then Some (c - 87)
      else if 65 \<le> c \<and> c \<le> 90 \<and> c - 55 < R then Some (c - 55)
      else None)"

fun digits_prefix :: "nat \<Rightarrow> js_string \<Rightarrow> nat list" where
  "digits_prefix R [] = []"
| "digits_prefix R (c # cs) =
     (case digit_value R c of None \<Rightarrow> [] | Some d \<Rightarrow> d # digits_prefix R cs)"

definition math_int :: "nat \<Rightarrow> nat list \<Rightarrow> nat" where
  "math_int R Z = foldl (\<lambda>a d. a * R + d) 0 Z"

definition strip_sign :: "js_string \<Rightarrow> int \<times> js_string" where
  "strip_sign S =
     (case S of
        [] \<Rightarrow> (1, [])
      | c # cs \<Rightarrow> if c = 45 then (- 1, cs) else if c = 43 then (1, cs) else (1, c # cs))"

definition strip_prefix :: "js_string \<Rightarrow> nat \<times> js_string" where
  "strip_prefix S =
     (case S of
        c # x # cs \<Rightarrow> if c = 48 \<and> (x = 120 \<or> x = 88) then (16, cs) else (10, S)
      | _ \<Rightarrow> (10, S))"

definition parseInt :: "js_string \<Rightarrow> int option" where
  "parseInt string =
     (let (sign, S) = strip_sign (dropWhile StrWhiteSpaceChar string);
          (R, S') = strip_prefix S;
          Z = digits_prefix R S'
      in if Z = [] then None else Some (sign * int (math_int R Z)))"

text \<open>
  \<open>inputMonth.toString().padStart(2, "0")\<close>: the decimal digits of the number, padded
  on the left to two characters. The result is bound to the \<open>?\<close> of the query as TEXT.
\<close>

definition digit_char :: "nat \<Rightarrow> char" where
  "digit_char d = ''0123456789'' ! d"

fun nat_digits :: "nat \<Rightarrow> string" where
  "nat_digits n =
     (if n < 10 then [digit_char n] else nat_digits (n div 10) @ [digit_char (n mod 10)])"

declare nat_digits.simps [simp del]

definition toString :: "int \<Rightarrow> string" where
  "toString n = (if n < 0 then CHR ''-'' # nat_digits (nat (- n)) else nat_digits (nat n))"

definition padStart :: "nat \<Rightarrow> char \<Rightarrow> string \<Rightarrow> string" where
  "padStart targetLength c s = replicate (targetLength - length s) c @ s"

section \<open>The price-range CASE expression\<close>

text \<open>
  The CASE expression of the bar-chart query (\<open>src/app.js\<close>, lines 155 to 166) is a list
  of WHEN clauses, tried in order, and an ELSE value. The column \<open>price\<close> is declared
  REAL; the model takes it as a real number, which is exact for the comparisons with the
  integer constants of the clauses.
\<close>

fun sql_case :: "(('a \<Rightarrow> bool) \<times> 'b) list \<Rightarrow> 'b \<Rightarrow> 'a \<Rightarrow> 'b" where
  "sql_case [] els x = els"
| "sql_case ((cond, v) # whens) els x = (if cond x then v else sql_case whens els x)"

definition when_clauses :: "((real \<Rightarrow> bool) \<times> string) list" where
  "when_clauses =
     [(\<lambda>price. price \<ge> 0 \<and> price \<le> 100, ''0 - 100''),
      (\<lambda>price. price > 100 \<and> price \<le> 200, ''101 - 200''),
      (\<lambda>price. price > 200 \<and> price \<le> 300, ''201 - 300''),
      (\<lambda>price. price > 300 \<and> price \<le> 400, ''301 - 400''),
      (\<lambda>price. price > 400 \<and> price \<le> 500, ''401 - 500''),
      (\<lambda>price. price > 500 \<and> price \<le> 600, ''501 - 600''),
      (\<lambda>price. price > 600 \<and> price \<le> 700, ''601 - 700''),
      (\<lambda>price. price > 700 \<and> price \<le> 800, ''701 - 800''),
      (\<lambda>price. price > 800 \<and> price \<le> 900, ''801 - 900'')]"

definition else_label :: string where
  "else_label = ''901-above''"

definition priceRange :: "real \<Rightarrow> string" where
  "priceRange p = sql_case when_clauses else_label p"

text \<open>
  A label applies to a price when one of its WHEN conditions holds, or when it is the
  ELSE label and no WHEN condition holds.
\<close>

definition label_applies :: "string \<Rightarrow> real \<Rightarrow> bool" where
  "label_applies l p \<longleftrightarrow>
     list_ex (\<lambda>w. snd w = l \<and> fst w p) when_clauses \<or>
     (l = else_label \<and> list_all (\<lambda>w. \<not> fst w p) when_clauses)"

definition bucket_labels :: "string list" where
  "bucket_labels = map snd when_clauses @ [else_label]"

section \<open>The record store\<close>

text \<open>
  One row of the table \<open>products\<close> (\<open>src/app.js\<close>, lines 24 to 35), with the column
  types of the specification's data model: \<open>id\<close> an integer, \<open>price\<close> a real number,
  \<open>sold\<close> a boolean (bound as the integers 1 and 0), the others text.
\<close>

record product =
  id' :: int
  title :: string
  price :: real
  description :: string
  category :: string
  image' :: string
  sold :: bool
  dateOfSale :: string

text \<open>
  The process holds one handle \<open>db\<close> on the database file. The model keeps whether
  the handle is still open, the table \<open>products\<close> (\<open>None\<close> while it has not been
  created) and the number of statements submitted to the handle so far.
\<close>

record database =
  handle_open :: bool
  products :: "product list option"
  statements :: nat

datatype sql_error = SQLITE_MISUSE | SQLITE_ERROR | SQLITE_CONSTRAINT

text \<open>
  \<open>db.all(query, params, callback)\<close>: the statement is submitted; it fails on a closed
  handle and when the table does not exist, and otherwise the callback receives the
  rows the query computes from the table.
\<close>

definition db_all :: "(product list \<Rightarrow> 'r) \<Rightarrow> database \<Rightarrow> (sql_error + 'r) \<times> database" where
  "db_all query db =
     (let db' = db\<lparr>statements := statements db + 1\<rparr>
      in if \<not> handle_open db then (Inl SQLITE_MISUSE, db')
         else case products db of
                None \<Rightarrow> (Inl SQLITE_ERROR, db')
              | Some rows \<Rightarrow> (Inr (query rows), db'))"

section \<open>The three aggregate queries\<close>

text \<open>
  Modelled from the spec: SQLite's \<open>strftime('%m', dateOfSale)\<close>, a function of the
  database engine and not of this repository. The specification describes it as the
  two-digit month component of \<open>dateOfSale\<close>, in \<open>01\<close> to \<open>12\<close>, whatever the day and
  the year; a value that does not start with a date \<open>YYYY-MM-DD\<close> has no month (SQL
  NULL, here \<open>None\<close>).
\<close>

definition is_digit :: "char \<Rightarrow> bool" where
  "is_digit c \<longleftrightarrow> c \<in> set ''0123456789''"

definition strftime_m :: "string \<Rightarrow> string option" where
  "strftime_m d =
     (if 10 \<le> length d \<and> list_all is_digit (take 4 d) \<and> d ! 4 = CHR ''-'' \<and>
         is_digit (d ! 5) \<and> is_digit (d ! 6) \<and> d ! 7 = CHR ''-'' \<and>
         is_digit (d ! 8) \<and> is_digit (d ! 9) \<and>
         [d ! 5, d ! 6] \<in> set [''01'', ''02'', ''03'', ''04'', ''05'', ''06'',
                                ''07'', ''08'', ''09'', ''10'', ''11'', ''12'']
      then Some [d ! 5, d ! 6] else None)"

text \<open>
  \<open>WHERE strftime('%m', dateOfSale) = ?\<close>: a row is kept when the comparison is true;
  a NULL month compares to NULL and the row is dropped.
\<close>

definition where_month :: "string \<Rightarrow> product list \<Rightarrow> product list" where
  "where_month param rows = filter (\<lambda>r. strftime_m (dateOfSale r) = Some param) rows"

text \<open>
  The aggregates of SQLite: \<open>COUNT(*)\<close> is the number of rows; \<open>SUM\<close> over no row is
  NULL, and the sum of the values otherwise.
\<close>

definition sql_sum :: "('a::monoid_add) list \<Rightarrow> 'a option" where
  "sql_sum vs = (if vs = [] then None else Some (sum_list vs))"

definition sql_count :: "'a list \<Rightarrow> int" where
  "sql_count rows = int (length rows)"

record statistics =
  totalSaleAmount :: "real option"
  totalItems :: int
  totalSoldItems :: "int option"
  totalUnsoldItems :: "int option"

text \<open>The query of \<open>GET /statistics/:month\<close> (lines 113 to 123); its result has one row.\<close>

definition statistics_query :: "string \<Rightarrow> product list \<Rightarrow> statistics" where
  "statistics_query param rows =
     (let matching = where_month param rows
      in \<lparr>totalSaleAmount = sql_sum (map price matching),
          totalItems = sql_count matching,
          totalSoldItems = sql_sum (map (\<lambda>r. if sold r then 1 else 0) matching),
          totalUnsoldItems = sql_sum (map (\<lambda>r. if \<not> sold r then 1 else 0) matching)\<rparr>)"

text \<open>
  \<open>SELECT key, COUNT(*) ... GROUP BY key\<close>: one result row for each distinct key among
  the selected rows, with the number of rows that have it. SQL leaves the order of the
  groups open; the model lists them by first occurrence.
\<close>

fun group_count :: "'k list \<Rightarrow> ('k \<times> int) list" where
  "group_count [] = []"
| "group_count (k # ks) =
     (k, sql_count (k # filter (\<lambda>x. x = k) ks)) # group_count (filter (\<lambda>x. x \<noteq> k) ks)"

text \<open>The query of \<open>GET /bar-chart/:month\<close> (lines 153 to 174).\<close>

definition bar_chart_query :: "string \<Rightarrow> product list \<Rightarrow> (string \<times> int) list" where
  "bar_chart_query param rows =
     group_count (map (\<lambda>r. priceRange (price r)) (where_month param rows))"

text \<open>The query of \<open>GET /pie-chart/:month\<close> (lines 204 to 214).\<close>

definition pie_chart_query :: "string \<Rightarrow> product list \<Rightarrow> (string \<times> int) list" where
  "pie_chart_query param rows = group_count (map category (where_month param rows))"

section \<open>The HTTP handlers\<close>

datatype body =
    Error string
  | Message string
  | Statistics statistics
  | BarChart "(string \<times> int) list"
  | PieChart "(string \<times> int) list"
  | Combined body body body

record response =
  status :: nat
  body :: body

definition bad_request :: response where
  "bad_request =
     \<lparr>status = 400,
      body = Error ''Invalid month. Please provide a valid month between 1 and 12.''\<rparr>"

definition internal_error :: response where
  "internal_error = \<lparr>status = 500, body = Error ''Internal server error''\<rparr>"

definition ok :: "body \<Rightarrow> response" where
  "ok b = \<lparr>status = 200, body = b\<rparr>"

text \<open>
  \<open>GET /statistics/:month\<close> (lines 100 to 137). Each handler takes the path parameter
  and the database and gives the response it sends and the database afterwards.
\<close>

definition get_statistics :: "js_string \<Rightarrow> database \<Rightarrow> response \<times> database" where
  "get_statistics month db =
     (case parseInt month of
        None \<Rightarrow> (bad_request, db)
      | Some inputMonth \<Rightarrow>
          if inputMonth < 1 \<or> inputMonth > 12 then (bad_request, db)
          else (case db_all (statistics_query (padStart 2 CHR ''0'' (toString inputMonth))) db of
                  (Inl err, db') \<Rightarrow> (internal_error, db')
                | (Inr result, db') \<Rightarrow> (ok (Statistics result), db')))"

text \<open>\<open>GET /bar-chart/:month\<close> (lines 140 to 188).\<close>

definition get_bar_chart :: "js_string \<Rightarrow> database \<Rightarrow> response \<times> database" where
  "get_bar_chart month db =
     (case parseInt month of
        None \<Rightarrow> (bad_request, db)
      | Some inputMonth \<Rightarrow>
          if inputMonth < 1 \<or> inputMonth > 12 then (bad_request, db)
          else (case db_all (bar_chart_query (padStart 2 CHR ''0'' (toString inputMonth))) db of
                  (Inl err, db') \<Rightarrow> (internal_error, db')
                | (Inr result, db') \<Rightarrow> (ok (BarChart result), db')))"

text \<open>\<open>GET /pie-chart/:month\<close> (lines 191 to 228).\<close>

definition get_pie_chart :: "js_string \<Rightarrow> database \<Rightarrow> response \<times> database" where
  "get_pie_chart month db =
     (case parseInt month of
        None \<Rightarrow> (bad_request, db)
      | Some inputMonth \<Rightarrow>
          if inputMonth < 1 \<or> inputMonth > 12 then (bad_request, db)
          else (case db_all (pie_chart_query (padStart 2 CHR ''0'' (toString inputMonth))) db of
                  (Inl err, db') \<Rightarrow> (internal_error, db')
                | (Inr result, db') \<Rightarrow> (ok (PieChart result), db')))"

text \<open>
  The three aggregation endpoints reject a month parameter when each of them answers
  with the invalid-month response and returns the database as it received it: no
  statement has been submitted to the handle.
\<close>

definition rejected :: "js_string \<Rightarrow> database \<Rightarrow> bool" where
  "rejected month db \<longleftrightarrow>
     get_statistics month db = (bad_request, db) \<and>
     get_bar_chart month db = (bad_request, db) \<and>
     get_pie_chart month db = (bad_request, db)"

text \<open>
  \<open>axios.get\<close> on one of the server's own routes: the promise resolves with the response
  when its status is 2xx and rejects otherwise. The request is modelled as the call of
  the route's handler with the same \<open>month\<close>, which is what the URL
  \<open>http://localhost:3000/statistics/${month}\<close> reaches for a parameter made of
  letters, digits and dots.
\<close>

datatype axios_error = AxiosError nat

definition axios_get ::
  "(database \<Rightarrow> response \<times> database) \<Rightarrow> database \<Rightarrow> (axios_error + body) \<times> database" where
  "axios_get route db =
     (let (res, db') = route db
      in if 200 \<le> status res \<and> status res < 300 then (Inr (body res), db')
         else (Inl (AxiosError (status res)), db'))"

text \<open>
  \<open>GET /combined-data/:month\<close> (lines 231 to 265): the three requests in sequence;
  a rejected one throws into the \<open>catch\<close>, which answers 500.
\<close>

definition get_combined_data :: "js_string \<Rightarrow> database \<Rightarrow> response \<times> database" where
  "get_combined_data month db =
     (case axios_get (get_statistics month) db of
        (Inl error, db1) \<Rightarrow> (internal_error, db1)
      | (Inr statisticsData, db1) \<Rightarrow>
     (case axios_get (get_bar_chart month) db1 of
        (Inl error, db2) \<Rightarrow> (internal_error, db2)
      | (Inr barChartData, db2) \<Rightarrow>
     (case axios_get (get_pie_chart month) db2 of
        (Inl error, db3) \<Rightarrow> (internal_error, db3)
      | (Inr pieChartData, db3) \<Rightarrow>
          (ok (Combined statisticsData barChartData pieChartData), db3))))"

section \<open>Ingestion\<close>

text \<open>
  What \<open>axios.get(apiURL)\<close> gives: the request fails, or it delivers a payload, which
  is a JSON array of records or something else.
\<close>

datatype payload = NotArray | Items "product list"

datatype feed = Unreachable | Fetched payload

text \<open>
  One \<open>INSERT INTO products\<close> (lines 44 to 67). The column \<open>id\<close> is the PRIMARY KEY:
  an insert whose \<open>id\<close> is already in the table fails and leaves the table as it is.
\<close>

definition db_run_insert :: "product \<Rightarrow> product list \<Rightarrow> sql_error + product list" where
  "db_run_insert item rows =
     (if id' item \<in> set (map id' rows) then Inl SQLITE_CONSTRAINT else Inr (rows @ [item]))"

text \<open>
  \<open>data.map\<close> issues one insert for each item; each has its own promise, and a rejected
  one does not stop the others (\<open>Promise.all\<close> only logs). The model runs them in the
  order of the feed and returns, for each item, the error of its insert if it failed.
\<close>

fun insertPromises :: "product list \<Rightarrow> product list \<Rightarrow> sql_error option list \<times> product list" where
  "insertPromises [] rows = ([], rows)"
| "insertPromises (item # data) rows =
     (case db_run_insert item rows of
        Inl err \<Rightarrow> (Some err # fst (insertPromises data rows), snd (insertPromises data rows))
      | Inr rows' \<Rightarrow> (None # fst (insertPromises data rows'), snd (insertPromises data rows')))"

text \<open>The rows of the table; none while the table does not exist.\<close>

definition stored :: "database \<Rightarrow> product list" where
  "stored db = (case products db of None \<Rightarrow> [] | Some rows \<Rightarrow> rows)"

text \<open>
  The callback of the CREATE statement (lines 37 to 79): \<open>data.map\<close> issues the inserts
  when the payload is an array and throws, with nothing inserted, when it is not.
\<close>

fun insert_data :: "payload \<Rightarrow> product list \<Rightarrow> product list" where
  "insert_data NotArray rows = rows"
| "insert_data (Items items) rows = snd (insertPromises items rows)"

fun issued :: "payload \<Rightarrow> nat" where
  "issued NotArray = 0"
| "issued (Items items) = length items"

text \<open>
  \<open>initializeDatabase\<close> (lines 15 to 88). A failed fetch is caught and logged before the
  handle is touched. Otherwise \<open>CREATE TABLE IF NOT EXISTS\<close> runs, its callback issues
  the inserts, and \<open>db.close()\<close>, queued behind the statements still pending, closes
  the handle after them. On a handle that is already closed the CREATE statement fails
  and nothing is inserted.
\<close>

definition initializeDatabase :: "feed \<Rightarrow> database \<Rightarrow> database" where
  "initializeDatabase response db =
     (case response of
        Unreachable \<Rightarrow> db
      | Fetched data \<Rightarrow>
          (if \<not> handle_open db then db\<lparr>statements := statements db + 1\<rparr>
           else db\<lparr>handle_open := False,
                   products := Some (insert_data data (stored db)),
                   statements := statements db + 1 + issued data\<rparr>))"

text \<open>\<open>GET /initialize-database\<close> (lines 94 to 97).\<close>

definition get_initialize_database :: "feed \<Rightarrow> database \<Rightarrow> response \<times> database" where
  "get_initialize_database response db =
     (ok (Message ''Database initialized with seed data''), initializeDatabase response db)"

text \<open>
  The life of the store: the server process starts on the database file with a new
  open handle, and ingestion is requested; the file is empty before the first start.
\<close>

datatype event = Restart | Initialize feed

definition fresh :: database where
  "fresh = \<lparr>handle_open = True, products = None, statements = 0\<rparr>"

fun step :: "database \<Rightarrow> event \<Rightarrow> database" where
  "step db Restart = db\<lparr>handle_open := True\<rparr>"
| "step db (Initialize response) = snd (get_initialize_database response db)"

definition run :: "event list \<Rightarrow> database" where
  "run events = foldl step fresh events"

section \<open>Example stores\<close>

text \<open>
  The two records of the specification's example, a store that holds them, a store
  whose table is empty, and a record with a negative price.
\<close>

definition example_rows :: "product list" where
  "example_rows =
     [\<lparr>id' = 1, title = ''Headphones'', price = 150, description = ''Wireless'',
       category = ''Electronics'', image' = ''https://example.test/1.png'', sold = True,
       dateOfSale = ''2024-03-05''\<rparr>,
      \<lparr>id' = 2, title = ''Atlas'', price = 950, description = ''Hardcover'',
       category = ''Books'', image' = ''https://example.test/2.png'', sold = False,
       dateOfSale = ''2024-03-20''\<rparr>]"

definition example_db :: database where
  "example_db = \<lparr>handle_open = True, products = Some example_rows, statements = 0\<rparr>"

definition empty_db :: database where
  "empty_db = \<lparr>handle_open = True, products = Some [], statements = 0\<rparr>"

definition refund :: product where
  "refund = \<lparr>id' = 3, title = ''Refund'', price = - 20, description = ''Returned item'',
     category = ''Books'', image' = ''https://example.test/3.png'', sold = False,
     dateOfSale = ''2024-03-09''\<rparr>"

section \<open>Price buckets\<close>

lemma priceRange_unfold:
  "priceRange p =
     (if 0 \<le> p \<and> p \<le> 100 then ''0 - 100''
      else if 100 < p \<and> p \<le> 200 then ''101 - 200''
      else if 200 < p \<and> p \<le> 300 then ''201 - 300''
      else if 300 < p \<and> p \<le> 400 then ''301 - 400''
      else if 400 < p \<and> p \<le> 500 then ''401 - 500''
      else if 500 < p \<and> p \<le> 600 then ''501 - 600''
      else if 600 < p \<and> p \<le> 700 then ''601 - 700''
      else if 700 < p \<and> p \<le> 800 then ''701 - 800''
      else if 800 < p \<and> p \<le> 900 then ''801 - 900''
      else ''901-above'')"
  by (simp add: priceRange_def when_clauses_def else_label_def)

lemma price_cases:
  fixes p :: real
  obtains "p < 0" | "0 \<le> p" "p \<le> 100" | "100 < p" "p \<le> 200" | "200 < p" "p \<le> 300"
    | "300 < p" "p \<le> 400" | "400 < p" "p \<le> 500" | "500 < p" "p \<le> 600"
    | "600 < p" "p \<le> 700" | "700 < p" "p \<le> 800" | "800 < p" "p \<le> 900" | "900 < p"
  by linarith

lemma label_applies_iff: "label_applies l p \<longleftrightarrow> l = priceRange p"
  by (cases p rule: price_cases)
    (auto simp add: priceRange_unfold label_applies_def when_clauses_def else_label_def)

lemma bucket_labels_eq:
  "bucket_labels = [''0 - 100'', ''101 - 200'', ''201 - 300'', ''301 - 400'', ''401 - 500'',
     ''501 - 600'', ''601 - 700'', ''701 - 800'', ''801 - 900'', ''901-above'']"
  by (simp add: bucket_labels_def when_clauses_def else_label_def)

lemma priceRange_in_labels: "priceRange p \<in> set bucket_labels"
  by (simp add: priceRange_unfold bucket_labels_eq)

text \<open>
  Claim C1. For every non-negative price exactly one of the ten bucket labels applies,
  and it is the label the CASE expression gives: the WHEN conditions and the ELSE branch
  partition the non-negative prices. The labels are pairwise different, the ELSE label
  is given exactly to the prices above 900, each boundary price 100, 200, ..., 900 lies
  in the lower bucket, and 101 is labelled \<open>101 - 200\<close>.
\<close>

theorem price_bucketing_partition:
  "0 \<le> p \<Longrightarrow>
     (\<exists>!l. l \<in> set bucket_labels \<and> label_applies l p) \<and>
     label_applies (priceRange p) p \<and> distinct bucket_labels \<and>
     (priceRange p = ''901-above'' \<longleftrightarrow> 900 < p) \<and>
     priceRange 100 = ''0 - 100'' \<and> priceRange 200 = ''101 - 200'' \<and>
     priceRange 300 = ''201 - 300'' \<and> priceRange 400 = ''301 - 400'' \<and>
     priceRange 500 = ''401 - 500'' \<and> priceRange 600 = ''501 - 600'' \<and>
     priceRange 700 = ''601 - 700'' \<and> priceRange 800 = ''701 - 800'' \<and>
     priceRange 900 = ''801 - 900'' \<and> priceRange 101 = ''101 - 200''"
proof -
  assume nonneg: "0 \<le> p"
  have one: "\<exists>!l. l \<in> set bucket_labels \<and> label_applies l p"
  proof
    show "priceRange p \<in> set bucket_labels \<and> label_applies (priceRange p) p"
      by (simp add: priceRange_in_labels label_applies_iff)
  next
    fix l
    assume "l \<in> set bucket_labels \<and> label_applies l p"
    then show "l = priceRange p"
      by (simp add: label_applies_iff)
  qed
  have own: "label_applies (priceRange p) p"
    by (simp add: label_applies_iff)
  have dist: "distinct bucket_labels"
    by (simp add: bucket_labels_eq)
  have top: "priceRange p = ''901-above'' \<longleftrightarrow> 900 < p"
    using nonneg by (cases p rule: price_cases) (simp_all add: priceRange_unfold)
  have bounds: "priceRange 100 = ''0 - 100'' \<and> priceRange 200 = ''101 - 200'' \<and>
     priceRange 300 = ''201 - 300'' \<and> priceRange 400 = ''301 - 400'' \<and>
     priceRange 500 = ''401 - 500'' \<and> priceRange 600 = ''501 - 600'' \<and>
     priceRange 700 = ''601 - 700'' \<and> priceRange 800 = ''701 - 800'' \<and>
     priceRange 900 = ''801 - 900'' \<and> priceRange 101 = ''101 - 200''"
    by (simp add: priceRange_unfold)
  from one own dist top bounds show ?thesis by blast
qed

theorem price_bucketing_partition_witness:
  "(0::real) \<le> 150 \<and> (\<exists>!l. l \<in> set bucket_labels \<and> label_applies l 150) \<and>
   priceRange 150 = ''101 - 200''"
proof -
  have h: "(0::real) \<le> 150" by simp
  have "\<exists>!l. l \<in> set bucket_labels \<and> label_applies l 150"
    using price_bucketing_partition [OF h] by blast
  moreover have "priceRange 150 = ''101 - 200''"
    by (simp add: priceRange_unfold)
  ultimately show ?thesis by simp
qed

section \<open>Grouping and the valid-month path of the handlers\<close>

lemma sum_group_count: "sum_list (map snd (group_count ks)) = sql_count ks"
proof (induction ks rule: group_count.induct)
  case 1
  show ?case by (simp add: sql_count_def)
next
  case (2 k ks)
  have "length (filter (\<lambda>x. x = k) ks) + length (filter (\<lambda>x. x \<noteq> k) ks) = length ks"
    by (rule sum_length_filter_compl)
  with 2 show ?case by (simp add: sql_count_def)
qed

lemma set_group_count:
  "set (group_count ks) = (\<lambda>k. (k, sql_count (filter (\<lambda>x. x = k) ks))) ` set ks"
proof (induction ks rule: group_count.induct)
  case 1
  show ?case by simp
next
  case (2 k ks)
  have inner: "filter (\<lambda>x. x \<noteq> k \<and> x = k') ks = filter (\<lambda>x. x = k') ks"
    if "k' \<noteq> k" for k'
    using that by (intro filter_cong) auto
  have "set (group_count (filter (\<lambda>x. x \<noteq> k) ks)) =
      (\<lambda>k'. (k', sql_count (filter (\<lambda>x. x = k') (k # ks)))) ` (set ks - {k})"
    unfolding 2 by (auto simp add: inner image_iff)
  then show ?case by auto
qed

lemma distinct_group_count: "distinct (map fst (group_count ks))"
proof (induction ks rule: group_count.induct)
  case 1
  show ?case by simp
next
  case (2 k ks)
  have "k \<notin> fst ` set (group_count (filter (\<lambda>x. x \<noteq> k) ks))"
    by (auto simp add: set_group_count)
  with 2 show ?case by simp
qed

lemma bar_chart_sum:
  "sum_list (map snd (bar_chart_query param rows)) = totalItems (statistics_query param rows)"
  by (simp add: bar_chart_query_def statistics_query_def sum_group_count sql_count_def Let_def)

lemma pie_chart_sum:
  "sum_list (map snd (pie_chart_query param rows)) = totalItems (statistics_query param rows)"
  by (simp add: pie_chart_query_def statistics_query_def sum_group_count sql_count_def Let_def)

lemma db_all_open:
  "handle_open db \<Longrightarrow> products db = Some rows \<Longrightarrow>
     db_all query db = (Inr (query rows), db\<lparr>statements := statements db + 1\<rparr>)"
  by (simp add: db_all_def)

lemma get_statistics_valid:
  "handle_open db \<Longrightarrow> products db = Some rows \<Longrightarrow> parseInt month = Some m \<Longrightarrow>
   1 \<le> m \<Longrightarrow> m \<le> 12 \<Longrightarrow>
     get_statistics month db =
       (ok (Statistics (statistics_query (padStart 2 CHR ''0'' (toString m)) rows)),
        db\<lparr>statements := statements db + 1\<rparr>)"
  by (simp add: get_statistics_def db_all_open)

lemma get_bar_chart_valid:
  "handle_open db \<Longrightarrow> products db = Some rows \<Longrightarrow> parseInt month = Some m \<Longrightarrow>
   1 \<le> m \<Longrightarrow> m \<le> 12 \<Longrightarrow>
     get_bar_chart month db =
       (ok (BarChart (bar_chart_query (padStart 2 CHR ''0'' (toString m)) rows)),
        db\<lparr>statements := statements db + 1\<rparr>)"
  by (simp add: get_bar_chart_def db_all_open)

lemma get_pie_chart_valid:
  "handle_open db \<Longrightarrow> products db = Some rows \<Longrightarrow> parseInt month = Some m \<Longrightarrow>
   1 \<le> m \<Longrightarrow> m \<le> 12 \<Longrightarrow>
     get_pie_chart month db =
       (ok (PieChart (pie_chart_query (padStart 2 CHR ''0'' (toString m)) rows)),
        db\<lparr>statements := statements db + 1\<rparr>)"
  by (simp add: get_pie_chart_def db_all_open)

lemma parseInt_3: "parseInt (js ''3'') = Some 3"
  by (simp add: parseInt_def js_def strip_sign_def strip_prefix_def StrWhiteSpaceChar_def
      digit_value_def math_int_def)

lemma param_3: "padStart 2 CHR ''0'' (toString 3) = ''03''"
  by (simp add: padStart_def toString_def nat_digits.simps digit_char_def)

lemma strftime_m_examples:
  "strftime_m ''2024-03-05'' = Some ''03''" "strftime_m ''2024-03-20'' = Some ''03''"
  "strftime_m ''2023-11-02'' = Some ''11''"
  by (simp_all add: strftime_m_def is_digit_def)

lemma param_4: "padStart 2 CHR ''0'' (toString 4) = ''04''"
  by (simp add: padStart_def toString_def nat_digits.simps digit_char_def)

lemma parseInt_4: "parseInt (js ''4'') = Some 4"
  by (simp add: parseInt_def js_def strip_sign_def strip_prefix_def StrWhiteSpaceChar_def
      digit_value_def math_int_def)


section \<open>The specification's example\<close>

text \<open>
  Claim C2. A store holds exactly two records: one sold on 2024-03-05 for 150 in the
  category Electronics, one unsold, dated 2024-03-20, priced 950, in the category Books
  (their other fields are arbitrary). For month 3 the statistics are a total amount of
  1100, two items, one sold and one unsold; the histogram is, as an unordered collection,
  one item in \<open>101 - 200\<close> and one in \<open>901-above\<close>; the category breakdown is one item
  in Electronics and one in Books.
\<close>

theorem month_3_example:
  fixes r1 r2 :: product and n :: nat
  defines "electronics \<equiv> r1\<lparr>dateOfSale := ''2024-03-05'', price := 150, sold := True,
                              category := ''Electronics''\<rparr>"
    and "books \<equiv> r2\<lparr>dateOfSale := ''2024-03-20'', price := 950, sold := False,
                      category := ''Books''\<rparr>"
  defines "db \<equiv> \<lparr>handle_open = True, products = Some [electronics, books], statements = n\<rparr>"
  shows "fst (get_statistics (js ''3'') db) =
           ok (Statistics \<lparr>totalSaleAmount = Some 1100, totalItems = 2,
                            totalSoldItems = Some 1, totalUnsoldItems = Some 1\<rparr>) \<and>
         (\<exists>histogram. fst (get_bar_chart (js ''3'') db) = ok (BarChart histogram) \<and>
            mset histogram = {#(''101 - 200'', 1), (''901-above'', 1)#}) \<and>
         (\<exists>breakdown. fst (get_pie_chart (js ''3'') db) = ok (PieChart breakdown) \<and>
            mset breakdown = {#(''Electronics'', 1), (''Books'', 1)#})"
proof -
  have op: "handle_open db" and tab: "products db = Some [electronics, books]"
    by (simp_all add: db_def)
  have sel: "where_month ''03'' [electronics, books] = [electronics, books]"
    by (simp add: where_month_def electronics_def books_def strftime_m_examples)
  have stats: "statistics_query ''03'' [electronics, books] =
      \<lparr>totalSaleAmount = Some 1100, totalItems = 2,
       totalSoldItems = Some 1, totalUnsoldItems = Some 1\<rparr>"
    unfolding statistics_query_def sel
    by (simp add: sql_sum_def sql_count_def electronics_def books_def)
  have bar: "bar_chart_query ''03'' [electronics, books] =
      [(''101 - 200'', 1), (''901-above'', 1)]"
    unfolding bar_chart_query_def sel
    by (simp add: sql_count_def electronics_def books_def priceRange_unfold)
  have pie: "pie_chart_query ''03'' [electronics, books] =
      [(''Electronics'', 1), (''Books'', 1)]"
    unfolding pie_chart_query_def sel
    by (simp add: sql_count_def electronics_def books_def)
  have "get_statistics (js ''3'') db =
      (ok (Statistics (statistics_query ''03'' [electronics, books])),
       db\<lparr>statements := statements db + 1\<rparr>)"
    using get_statistics_valid [OF op tab parseInt_3] by (simp add: param_3)
  moreover have "get_bar_chart (js ''3'') db =
      (ok (BarChart (bar_chart_query ''03'' [electronics, books])),
       db\<lparr>statements := statements db + 1\<rparr>)"
    using get_bar_chart_valid [OF op tab parseInt_3] by (simp add: param_3)
  moreover have "get_pie_chart (js ''3'') db =
      (ok (PieChart (pie_chart_query ''03'' [electronics, books])),
       db\<lparr>statements := statements db + 1\<rparr>)"
    using get_pie_chart_valid [OF op tab parseInt_3] by (simp add: param_3)
  ultimately show ?thesis
    by (simp add: stats bar pie ok_def)
qed

section \<open>Counts against the total\<close>

text \<open>
  Claim C3. On a store with its table, for every month parameter that the handlers read
  as a number from 1 to 12, the bar-chart and the statistics requests both succeed, and
  the item counts of the histogram's buckets add up to \<open>totalItems\<close>.
\<close>

theorem histogram_counts_sum_to_total_items:
  assumes "handle_open db" and "products db = Some rows"
    and "parseInt month = Some m" and "1 \<le> m" and "m \<le> 12"
  shows "\<exists>chart stats.
           fst (get_bar_chart month db) = ok (BarChart chart) \<and>
           fst (get_statistics month db) = ok (Statistics stats) \<and>
           sum_list (map snd chart) = totalItems stats"
  using assms by (simp add: get_bar_chart_valid get_statistics_valid bar_chart_sum ok_def)


theorem histogram_counts_sum_to_total_items_witness:
  "\<exists>chart stats.
     fst (get_bar_chart (js ''3'') example_db) = ok (BarChart chart) \<and>
     fst (get_statistics (js ''3'') example_db) = ok (Statistics stats) \<and>
     sum_list (map snd chart) = totalItems stats"
proof -
  have "handle_open example_db" and "products example_db = Some example_rows"
    by (simp_all add: example_db_def)
  then show ?thesis
    using parseInt_3 by (rule histogram_counts_sum_to_total_items) simp_all
qed


text \<open>
  Claim C4. On a store with its table, for every month parameter that the handlers read
  as a number from 1 to 12, the pie-chart and the statistics requests both succeed, and
  the item counts of the categories add up to \<open>totalItems\<close>.
\<close>

theorem category_counts_sum_to_total_items:
  assumes "handle_open db" and "products db = Some rows"
    and "parseInt month = Some m" and "1 \<le> m" and "m \<le> 12"
  shows "\<exists>breakdown stats.
           fst (get_pie_chart month db) = ok (PieChart breakdown) \<and>
           fst (get_statistics month db) = ok (Statistics stats) \<and>
           sum_list (map snd breakdown) = totalItems stats"
  using assms by (simp add: get_pie_chart_valid get_statistics_valid pie_chart_sum ok_def)


theorem category_counts_sum_to_total_items_witness:
  "\<exists>breakdown stats.
     fst (get_pie_chart (js ''3'') example_db) = ok (PieChart breakdown) \<and>
     fst (get_statistics (js ''3'') example_db) = ok (Statistics stats) \<and>
     sum_list (map snd breakdown) = totalItems stats"
proof -
  have "handle_open example_db" and "products example_db = Some example_rows"
    by (simp_all add: example_db_def)
  then show ?thesis
    using parseInt_3 by (rule category_counts_sum_to_total_items) simp_all
qed


section \<open>Statistics of a month without records\<close>

lemma statistics_query_empty:
  "where_month param rows = [] \<Longrightarrow>
     statistics_query param rows =
       \<lparr>totalSaleAmount = None, totalItems = 0, totalSoldItems = None, totalUnsoldItems = None\<rparr>"
  by (simp add: statistics_query_def sql_sum_def sql_count_def)


lemma get_statistics_unavailable:
  "parseInt month = Some m \<Longrightarrow> 1 \<le> m \<Longrightarrow> m \<le> 12 \<Longrightarrow>
   \<not> handle_open db \<or> products db = None \<Longrightarrow>
     fst (get_statistics month db) = internal_error"
  by (auto simp add: get_statistics_def db_all_def Let_def)

text \<open>
  Claim C8, as amended. When the database handle is open, the table exists and no
  record matches the requested valid month (in particular when the table is empty), the
  statistics request succeeds with \<open>totalItems = 0\<close>, and the three fields computed
  by SUM, that is \<open>totalSaleAmount\<close>, \<open>totalSoldItems\<close> and \<open>totalUnsoldItems\<close>,
  are all null.
\<close>

theorem empty_month_statistics:
  assumes "handle_open db" and "products db = Some rows"
    and "parseInt month = Some m" and "1 \<le> m" and "m \<le> 12"
    and "where_month (padStart 2 CHR ''0'' (toString m)) rows = []"
  shows "fst (get_statistics month db) =
           ok (Statistics \<lparr>totalSaleAmount = None, totalItems = 0,
                            totalSoldItems = None, totalUnsoldItems = None\<rparr>)"
  using assms by (simp add: get_statistics_valid statistics_query_empty)

theorem empty_month_statistics_witness:
  "where_month ''04'' example_rows = [] \<and>
   fst (get_statistics (js ''4'') example_db) =
     ok (Statistics \<lparr>totalSaleAmount = None, totalItems = 0,
                      totalSoldItems = None, totalUnsoldItems = None\<rparr>)"
proof -
  have op: "handle_open example_db" and tab: "products example_db = Some example_rows"
    by (simp_all add: example_db_def)
  have none: "where_month ''04'' example_rows = []"
    by (simp add: where_month_def example_rows_def strftime_m_examples)
  have padded: "where_month (padStart 2 CHR ''0'' (toString 4)) example_rows = []"
    by (simp add: param_4 none)
  have "fst (get_statistics (js ''4'') example_db) =
     ok (Statistics \<lparr>totalSaleAmount = None, totalItems = 0,
                      totalSoldItems = None, totalUnsoldItems = None\<rparr>)"
    using empty_month_statistics [OF op tab parseInt_4 _ _ padded] by simp
  with none show ?thesis by simp
qed


text \<open>
  Claim C8 as stated fails in three ways. On an empty table read through an open
  handle the request returns null, not 0, for the sold and the unsold counts. On a
  database that was never seeded, which is also what a failed fetch leaves behind, there
  are zero records and no table, and the request answers 500. After an ingestion of an
  empty feed the table exists with zero records, but the ingestion has closed the
  handle of its process, and the request answers 500.
\<close>

theorem empty_store_counts_counterexample:
  "fst (get_statistics (js ''3'') empty_db) =
     ok (Statistics \<lparr>totalSaleAmount = None, totalItems = 0,
                      totalSoldItems = None, totalUnsoldItems = None\<rparr>) \<and>
   fst (get_statistics (js ''3'') empty_db) \<noteq>
     ok (Statistics \<lparr>totalSaleAmount = None, totalItems = 0,
                      totalSoldItems = Some 0, totalUnsoldItems = Some 0\<rparr>) \<and>
   stored fresh = [] \<and> run [Initialize Unreachable] = fresh \<and>
   fst (get_statistics (js ''3'') fresh) = internal_error \<and>
   stored (run [Initialize (Fetched (Items []))]) = [] \<and>
   products (run [Initialize (Fetched (Items []))]) = Some [] \<and>
   fst (get_statistics (js ''3'') (run [Initialize (Fetched (Items []))])) = internal_error \<and>
   status internal_error = 500"
proof -
  have "handle_open empty_db" and "products empty_db = Some []"
    by (simp_all add: empty_db_def)
  then have "get_statistics (js ''3'') empty_db =
      (ok (Statistics (statistics_query ''03'' [])), empty_db\<lparr>statements := statements empty_db + 1\<rparr>)"
    using get_statistics_valid [of empty_db "[]" "js ''3''" 3] parseInt_3 by (simp add: param_3)
  moreover have "where_month ''03'' [] = []"
    by (simp add: where_month_def)
  ultimately have nulls: "fst (get_statistics (js ''3'') empty_db) =
     ok (Statistics \<lparr>totalSaleAmount = None, totalItems = 0,
                      totalSoldItems = None, totalUnsoldItems = None\<rparr>) \<and>
   fst (get_statistics (js ''3'') empty_db) \<noteq>
     ok (Statistics \<lparr>totalSaleAmount = None, totalItems = 0,
                      totalSoldItems = Some 0, totalUnsoldItems = Some 0\<rparr>)"
    by (simp add: statistics_query_empty ok_def)
  have unseeded: "stored fresh = [] \<and> run [Initialize Unreachable] = fresh"
    by (simp add: stored_def fresh_def run_def get_initialize_database_def
        initializeDatabase_def)
  have "products fresh = None"
    by (simp add: fresh_def)
  then have no_table: "fst (get_statistics (js ''3'') fresh) = internal_error"
    using get_statistics_unavailable [OF parseInt_3, of fresh] by simp
  have seeded: "run [Initialize (Fetched (Items []))] =
      \<lparr>handle_open = False, products = Some [], statements = 1\<rparr>"
    by (simp add: run_def fresh_def get_initialize_database_def initializeDatabase_def
        stored_def)
  then have closed: "\<not> handle_open (run [Initialize (Fetched (Items []))])"
    by simp
  have same_process:
    "fst (get_statistics (js ''3'') (run [Initialize (Fetched (Items []))])) = internal_error"
    using get_statistics_unavailable [OF parseInt_3, of "run [Initialize (Fetched (Items []))]"]
      closed by simp
  have rows: "stored (run [Initialize (Fetched (Items []))]) = [] \<and>
      products (run [Initialize (Fetched (Items []))]) = Some []"
    using seeded by (simp add: stored_def)
  have "status internal_error = 500"
    by (simp add: internal_error_def)
  with nulls unseeded no_table rows same_process show ?thesis
    by blast
qed


section \<open>Negative prices\<close>

text \<open>
  Claim C9. A record with a negative price is labelled \<open>901-above\<close>, the ELSE branch
  of the CASE expression, so that every real price has a bucket label; when the record
  matches the month, the histogram has a row for \<open>901-above\<close> whose count is the
  number of matching records with that label, the negative-priced record among them.
\<close>

theorem negative_price_bucket:
  assumes "price r < 0" and "r \<in> set rows" and "strftime_m (dateOfSale r) = Some param"
  shows "priceRange (price r) = ''901-above'' \<and>
         label_applies ''901-above'' (price r) \<and>
         priceRange q \<in> set bucket_labels \<and>
         r \<in> set (filter (\<lambda>x. priceRange (price x) = ''901-above'') (where_month param rows)) \<and>
         (''901-above'',
          sql_count (filter (\<lambda>x. priceRange (price x) = ''901-above'') (where_month param rows)))
           \<in> set (bar_chart_query param rows)"
proof -
  have label: "priceRange (price r) = ''901-above''"
    using assms(1) by (simp add: priceRange_unfold)
  have sel: "r \<in> set (where_month param rows)"
    using assms(2,3) by (simp add: where_month_def)
  have "filter (\<lambda>l. l = ''901-above'') (map (\<lambda>x. priceRange (price x)) (where_month param rows)) =
      map (\<lambda>x. priceRange (price x))
        (filter (\<lambda>x. priceRange (price x) = ''901-above'') (where_month param rows))"
    by (simp add: filter_map comp_def)
  then have count: "sql_count (filter (\<lambda>l. l = ''901-above'')
        (map (\<lambda>x. priceRange (price x)) (where_month param rows))) =
      sql_count (filter (\<lambda>x. priceRange (price x) = ''901-above'') (where_month param rows))"
    by (simp add: sql_count_def)
  have "''901-above'' \<in> set (map (\<lambda>x. priceRange (price x)) (where_month param rows))"
    using sel label by force
  then have "(''901-above'', sql_count (filter (\<lambda>l. l = ''901-above'')
        (map (\<lambda>x. priceRange (price x)) (where_month param rows))))
      \<in> set (bar_chart_query param rows)"
    unfolding bar_chart_query_def set_group_count by (rule imageI)
  with count label sel show ?thesis
    by (simp add: label_applies_iff priceRange_in_labels)
qed


theorem negative_price_bucket_witness:
  "price refund < 0 \<and> priceRange (price refund) = ''901-above'' \<and>
   bar_chart_query ''03'' (example_rows @ [refund]) = [(''101 - 200'', 1), (''901-above'', 2)]"
proof -
  have a: "price refund < 0" and b: "refund \<in> set (example_rows @ [refund])"
    by (simp_all add: refund_def)
  have c: "strftime_m (dateOfSale refund) = Some ''03''"
    by (simp add: refund_def strftime_m_def is_digit_def)
  have "priceRange (price refund) = ''901-above''"
    using negative_price_bucket [OF a b c] by simp
  moreover have "bar_chart_query ''03'' (example_rows @ [refund]) =
      [(''101 - 200'', 1), (''901-above'', 2)]"
    by (simp add: bar_chart_query_def where_month_def example_rows_def refund_def
        strftime_m_def is_digit_def priceRange_unfold sql_count_def)
  ultimately show ?thesis using a by simp
qed

section \<open>Reading the month parameter\<close>

text \<open>
  \<open>parseInt\<close> reads back the decimal numeral of every integer, and gives \<open>NaN\<close> when
  no decimal digit follows the white space and the sign.
\<close>

lemma of_char_digit_char: "d < 10 \<Longrightarrow> of_char (digit_char d) = 48 + d"
proof -
  assume "d < 10"
  then have "d = 0 \<or> d = 1 \<or> d = 2 \<or> d = 3 \<or> d = 4 \<or> d = 5 \<or> d = 6 \<or> d = 7 \<or> d = 8 \<or> d = 9"
    by arith
  then show ?thesis
    by (elim disjE) (simp_all add: digit_char_def)
qed

lemma digits_prefix_decimal:
  "\<forall>c\<in>set cs. 48 \<le> c \<and> c \<le> 57 \<Longrightarrow> digits_prefix 10 cs = map (\<lambda>c. c - 48) cs"
  by (induction cs) (auto simp add: digit_value_def)

lemma math_int_snoc: "math_int R (Z @ [d]) = math_int R Z * R + d"
  by (simp add: math_int_def)

lemma js_nat_digits_range: "\<forall>c\<in>set (js (nat_digits k)). 48 \<le> c \<and> c \<le> 57"
proof (induction k rule: nat_digits.induct)
  case (1 n)
  show ?case
  proof (cases "n < 10")
    case True
    then show ?thesis
      by (simp add: nat_digits.simps [of n] js_def of_char_digit_char)
  next
    case False
    have "n mod 10 < 10" by simp
    then have "of_char (digit_char (n mod 10)) = 48 + n mod 10"
      by (rule of_char_digit_char)
    with False 1 show ?thesis
      by (simp add: nat_digits.simps [of n] js_def)
  qed
qed

lemma js_nat_digits_value: "math_int 10 (map (\<lambda>c. c - 48) (js (nat_digits k))) = k"
proof (induction k rule: nat_digits.induct)
  case (1 n)
  show ?case
  proof (cases "n < 10")
    case True
    then show ?thesis
      by (simp add: nat_digits.simps [of n] js_def of_char_digit_char math_int_def)
  next
    case False
    have "n mod 10 < 10" by simp
    then have last: "of_char (digit_char (n mod 10)) = 48 + n mod 10"
      by (rule of_char_digit_char)
    from False 1 have "math_int 10 (map (\<lambda>c. c - 48) (js (nat_digits (n div 10)))) = n div 10"
      by simp
    with False last show ?thesis
      by (simp add: nat_digits.simps [of n] js_def math_int_snoc)
  qed
qed

lemma nat_digits_nonempty: "nat_digits k \<noteq> []"
  by (subst nat_digits.simps) simp

lemma parseInt_digits:
  assumes "cs \<noteq> []" and "\<forall>c\<in>set cs. 48 \<le> c \<and> c \<le> 57"
  shows "parseInt cs = Some (int (math_int 10 (map (\<lambda>c. c - 48) cs)))"
    and "parseInt (45 # cs) = Some (- int (math_int 10 (map (\<lambda>c. c - 48) cs)))"
proof -
  from assms obtain c cs' where cs: "cs = c # cs'" and c: "48 \<le> c" "c \<le> 57"
    by (cases cs) auto
  have ws: "\<not> StrWhiteSpaceChar c"
    using c by (simp add: StrWhiteSpaceChar_def)
  have sign: "strip_sign cs = (1, cs)"
    using c by (simp add: strip_sign_def cs)
  have prefix: "strip_prefix cs = (10, cs)"
  proof (cases cs')
    case Nil
    then show ?thesis by (simp add: strip_prefix_def cs)
  next
    case (Cons x xs)
    with assms(2) have "48 \<le> x \<and> x \<le> 57" by (simp add: cs)
    then show ?thesis by (simp add: strip_prefix_def cs Cons)
  qed
  have Z: "digits_prefix 10 cs = map (\<lambda>c. c - 48) cs"
    using assms(2) by (rule digits_prefix_decimal)
  have nonempty: "map (\<lambda>c. c - 48) cs \<noteq> []"
    using assms(1) by simp
  have trim: "dropWhile StrWhiteSpaceChar cs = cs"
    using ws by (simp add: cs)
  show "parseInt cs = Some (int (math_int 10 (map (\<lambda>c. c - 48) cs)))"
    unfolding parseInt_def trim sign using nonempty by (simp add: prefix Z)
  have "\<not> StrWhiteSpaceChar 45"
    by (simp add: StrWhiteSpaceChar_def)
  then have trim': "dropWhile StrWhiteSpaceChar (45 # cs) = 45 # cs"
    by simp
  have sign': "strip_sign (45 # cs) = (- 1, cs)"
    by (simp add: strip_sign_def)
  show "parseInt (45 # cs) = Some (- int (math_int 10 (map (\<lambda>c. c - 48) cs)))"
    unfolding parseInt_def trim' sign' using nonempty by (simp add: prefix Z)
qed

lemma parseInt_toString: "parseInt (js (toString n)) = Some n"
proof (cases "n < 0")
  case True
  have "js (toString n) = 45 # js (nat_digits (nat (- n)))"
    using True by (simp add: toString_def js_def)
  moreover have "js (nat_digits (nat (- n))) \<noteq> []"
    by (simp add: js_def nat_digits_nonempty)
  ultimately show ?thesis
    using True by (simp add: parseInt_digits(2) js_nat_digits_range js_nat_digits_value)
next
  case False
  have "js (toString n) = js (nat_digits (nat n))"
    using False by (simp add: toString_def)
  moreover have "js (nat_digits (nat n)) \<noteq> []"
    by (simp add: js_def nat_digits_nonempty)
  ultimately show ?thesis
    using False by (simp add: parseInt_digits(1) js_nat_digits_range js_nat_digits_value)
qed

lemma parseInt_no_digit:
  assumes "digits_prefix 10 (snd (strip_sign (dropWhile StrWhiteSpaceChar month))) = []"
  shows "parseInt month = None"
proof -
  obtain sign S where s: "strip_sign (dropWhile StrWhiteSpaceChar month) = (sign, S)"
    by (cases "strip_sign (dropWhile StrWhiteSpaceChar month)")
  with assms have none: "digits_prefix 10 S = []" by simp
  have "strip_prefix S = (10, S)"
  proof (cases S)
    case Nil
    then show ?thesis by (simp add: strip_prefix_def)
  next
    case (Cons c cs)
    with none have "c \<noteq> 48"
      by (auto simp add: digit_value_def)
    then show ?thesis
      by (cases cs) (simp_all add: strip_prefix_def Cons)
  qed
  with s none show ?thesis
    by (simp add: parseInt_def)
qed

lemma parseInt_abc: "parseInt (js ''abc'') = None"
  by (simp add: parseInt_def js_def strip_sign_def strip_prefix_def StrWhiteSpaceChar_def
      digit_value_def)

lemma toString_13: "toString 13 = ''13''"
  by (simp add: toString_def nat_digits.simps digit_char_def)

lemma parseInt_fraction: "parseInt (js ''12.5'') = Some 12"
  by (simp add: parseInt_def js_def strip_sign_def strip_prefix_def StrWhiteSpaceChar_def
      digit_value_def math_int_def)

lemma parseInt_3abc: "parseInt (js ''3abc'') = Some 3"
  by (simp add: parseInt_def js_def strip_sign_def strip_prefix_def StrWhiteSpaceChar_def
      digit_value_def math_int_def)


section \<open>Invalid months\<close>

lemma rejected_NaN: "parseInt month = None \<Longrightarrow> rejected month db"
  by (simp add: rejected_def get_statistics_def get_bar_chart_def get_pie_chart_def)

lemma rejected_range: "parseInt month = Some n \<Longrightarrow> n < 1 \<or> 12 < n \<Longrightarrow> rejected month db"
  by (auto simp add: rejected_def get_statistics_def get_bar_chart_def get_pie_chart_def)


text \<open>
  Claim C5, as amended. Each of the three aggregation endpoints answers 400 with the
  invalid-month error, without any store access, for every month parameter that
  \<open>parseInt\<close> reads as \<open>NaN\<close> or as an integer outside 1 to 12. This covers the
  decimal numeral of every integer below 1 or above 12, and every parameter in which no
  decimal digit follows the leading white space and the optional sign.
\<close>

theorem invalid_month_rejected:
  "((parseInt month = None \<or> (\<exists>n. parseInt month = Some n \<and> (n < 1 \<or> 12 < n))) \<longrightarrow>
      rejected month db) \<and>
   (k < 1 \<or> 12 < k \<longrightarrow> rejected (js (toString k)) db) \<and>
   (digits_prefix 10 (snd (strip_sign (dropWhile StrWhiteSpaceChar month))) = [] \<longrightarrow>
      rejected month db) \<and>
   status bad_request = 400"
proof -
  have "rejected month db"
    if "parseInt month = None \<or> (\<exists>n. parseInt month = Some n \<and> (n < 1 \<or> 12 < n))"
    using that by (auto intro: rejected_NaN rejected_range)
  moreover have "rejected (js (toString k)) db" if "k < 1 \<or> 12 < k"
    using parseInt_toString that by (rule rejected_range)
  moreover have "rejected month db"
    if "digits_prefix 10 (snd (strip_sign (dropWhile StrWhiteSpaceChar month))) = []"
    using that by (intro rejected_NaN parseInt_no_digit)
  moreover have "status bad_request = 400"
    by (simp add: bad_request_def)
  ultimately show ?thesis by blast
qed


theorem invalid_month_rejected_witness:
  "rejected (js ''abc'') example_db \<and> rejected (js ''13'') example_db"
proof -
  have "rejected (js ''abc'') example_db"
    using invalid_month_rejected [of "js ''abc''" example_db 13] parseInt_abc by simp
  moreover have "rejected (js ''13'') example_db"
    using invalid_month_rejected [of "js ''abc''" example_db 13] by (simp add: toString_13)
  ultimately show ?thesis by simp
qed


text \<open>
  Claim C5 as stated fails for parameters with a valid month in front: \<open>12.5\<close>, a
  number outside 1 to 12, and \<open>3abc\<close>, which is not a number, are read as 12 and 3;
  the statistics endpoint answers 200 and submits its query.
\<close>

theorem lenient_month_counterexample:
  "\<not> rejected (js ''12.5'') empty_db \<and> \<not> rejected (js ''3abc'') empty_db \<and>
   status (fst (get_statistics (js ''12.5'') empty_db)) = 200 \<and>
   statements (snd (get_statistics (js ''12.5'') empty_db)) = statements empty_db + 1 \<and>
   status (fst (get_statistics (js ''3abc'') empty_db)) = 200 \<and>
   statements (snd (get_statistics (js ''3abc'') empty_db)) = statements empty_db + 1"
proof -
  have op: "handle_open empty_db" and tab: "products empty_db = Some []"
    by (simp_all add: empty_db_def)
  have a: "get_statistics (js ''12.5'') empty_db =
      (ok (Statistics (statistics_query (padStart 2 CHR ''0'' (toString 12)) [])),
       empty_db\<lparr>statements := statements empty_db + 1\<rparr>)"
    using get_statistics_valid [OF op tab parseInt_fraction] by simp
  have b: "get_statistics (js ''3abc'') empty_db =
      (ok (Statistics (statistics_query (padStart 2 CHR ''0'' (toString 3)) [])),
       empty_db\<lparr>statements := statements empty_db + 1\<rparr>)"
    using get_statistics_valid [OF op tab parseInt_3abc] by simp
  show ?thesis
    by (simp add: rejected_def a b ok_def bad_request_def)
qed


section \<open>The combined endpoint on an invalid month\<close>

lemma axios_get_bad_request:
  "route db = (bad_request, db') \<Longrightarrow> axios_get route db = (Inl (AxiosError 400), db')"
  by (simp add: axios_get_def bad_request_def)

lemma combined_invalid:
  "rejected month db \<Longrightarrow> get_combined_data month db = (internal_error, db)"
  by (simp add: get_combined_data_def rejected_def axios_get_bad_request)

lemma parseInt_13: "parseInt (js ''13'') = Some 13"
  by (simp add: parseInt_def js_def strip_sign_def strip_prefix_def StrWhiteSpaceChar_def
      digit_value_def math_int_def)


text \<open>
  Claim C6. The combined endpoint does not validate the month. On the parameters
  \<open>13\<close> and \<open>abc\<close> its first request, to the statistics endpoint, is answered 400;
  the rejected promise throws into the \<open>catch\<close>, and the combined endpoint answers
  500 with the internal-error body, not 400. No statement reaches the store.
\<close>

theorem combined_data_invalid_month:
  "get_combined_data (js ''13'') db = (internal_error, db) \<and>
   get_combined_data (js ''abc'') db = (internal_error, db) \<and>
   status internal_error = 500 \<and> get_statistics (js ''13'') db = (bad_request, db)"
proof -
  have a: "rejected (js ''13'') db"
    using parseInt_13 by (rule rejected_range) simp
  have b: "rejected (js ''abc'') db"
    using parseInt_abc by (rule rejected_NaN)
  from a have "get_statistics (js ''13'') db = (bad_request, db)"
    by (simp add: rejected_def)
  with a b show ?thesis
    by (simp add: combined_invalid internal_error_def)
qed


section \<open>The response of the ingestion endpoint\<close>

text \<open>
  Claim C7. When the feed cannot be fetched, \<open>initializeDatabase\<close> catches the
  error and returns; the endpoint answers 200 with the confirmation message and the
  store is unchanged. The endpoint answers 200 with that message whatever the fetch
  and the inserts did.
\<close>

theorem initialize_database_always_confirms:
  "get_initialize_database Unreachable db =
     (\<lparr>status = 200, body = Message ''Database initialized with seed data''\<rparr>, db) \<and>
   fst (get_initialize_database response db) =
     \<lparr>status = 200, body = Message ''Database initialized with seed data''\<rparr>"
  by (simp add: get_initialize_database_def initializeDatabase_def ok_def)

section \<open>The primary key\<close>

lemma ids_insertPromises:
  "set (map id' (snd (insertPromises items rows))) = set (map id' rows) \<union> set (map id' items)"
  by (induction items arbitrary: rows) (auto simp add: db_run_insert_def)

lemma distinct_insertPromises:
  "distinct (map id' rows) \<Longrightarrow> distinct (map id' (snd (insertPromises items rows)))"
  by (induction items arbitrary: rows) (auto simp add: db_run_insert_def)

lemma insertPromises_present:
  "set (map id' items) \<subseteq> set (map id' rows) \<Longrightarrow>
     insertPromises items rows = (replicate (length items) (Some SQLITE_CONSTRAINT), rows)"
  by (induction items arbitrary: rows) (auto simp add: db_run_insert_def)

lemma distinct_insert_data:
  "distinct (map id' rows) \<Longrightarrow> distinct (map id' (insert_data data rows))"
  by (cases data) (simp_all add: distinct_insertPromises)

lemma distinct_step:
  "distinct (map id' (stored db)) \<Longrightarrow> distinct (map id' (stored (step db e)))"
proof (cases e)
  case Restart
  assume "distinct (map id' (stored db))"
  with Restart show ?thesis by (simp add: stored_def)
next
  case (Initialize response)
  assume inv: "distinct (map id' (stored db))"
  show ?thesis
  proof (cases response)
    case Unreachable
    with Initialize inv show ?thesis
      by (simp add: get_initialize_database_def initializeDatabase_def)
  next
    case (Fetched data)
    show ?thesis
    proof (cases "handle_open db")
      case True
      have "stored (initializeDatabase (Fetched data) db) = insert_data data (stored db)"
        using True by (simp add: initializeDatabase_def stored_def)
      with Initialize Fetched inv show ?thesis
        by (simp add: get_initialize_database_def distinct_insert_data)
    next
      case False
      then have "stored (initializeDatabase (Fetched data) db) = stored db"
        by (simp add: initializeDatabase_def stored_def)
      with Initialize Fetched inv show ?thesis
        by (simp add: get_initialize_database_def)
    qed
  qed
qed

lemma distinct_foldl_step:
  "distinct (map id' (stored db)) \<Longrightarrow> distinct (map id' (stored (foldl step db events)))"
  by (induction events arbitrary: db) (simp_all add: distinct_step)

lemma distinct_run: "distinct (map id' (stored (run events)))"
  unfolding run_def by (rule distinct_foldl_step) (simp add: stored_def fresh_def)

lemma stored_ingest_open:
  "handle_open db \<Longrightarrow>
     stored (step db (Initialize (Fetched (Items items)))) = snd (insertPromises items (stored db))"
  by (simp add: get_initialize_database_def initializeDatabase_def stored_def)

lemma stored_ingest_closed:
  "\<not> handle_open db \<Longrightarrow> stored (step db (Initialize response)) = stored db"
  by (cases response) (simp_all add: get_initialize_database_def initializeDatabase_def stored_def)

lemma closed_after_ingest:
  "handle_open db \<Longrightarrow> \<not> handle_open (step db (Initialize (Fetched data)))"
  by (simp add: get_initialize_database_def initializeDatabase_def)

lemma stored_restart: "stored (step db Restart) = stored db"
  by (simp add: stored_def)


text \<open>
  Claim C10. After every sequence of server starts and ingestion requests, beginning
  with an empty database file, no two stored records have the same \<open>id\<close>. When the
  same feed is ingested again after a successful ingestion, every insert fails on the
  primary key, and the stored records, hence their number, are as after the first
  ingestion; this holds when the server was restarted in between and when it was not.
\<close>

theorem ingestion_keeps_ids_unique:
  fixes events :: "event list" and items :: "product list"
  defines "seed \<equiv> Initialize (Fetched (Items items))"
  defines "once \<equiv> run (events @ [Restart, seed])"
  shows "distinct (map id' (stored (run events))) \<and>
         fst (insertPromises items (stored once)) =
           replicate (length items) (Some SQLITE_CONSTRAINT) \<and>
         stored (run (events @ [Restart, seed, Restart, seed])) = stored once \<and>
         length (stored (run (events @ [Restart, seed, Restart, seed]))) = length (stored once) \<and>
         stored (run (events @ [Restart, seed, seed])) = stored once"
proof -
  define before where "before = step (run events) Restart"
  have op: "handle_open before"
    by (simp add: before_def)
  have once: "once = step before seed"
    by (simp add: once_def before_def run_def)
  have rows: "stored once = snd (insertPromises items (stored before))"
    unfolding once seed_def using op by (rule stored_ingest_open)
  have present: "set (map id' items) \<subseteq> set (map id' (stored once))"
    unfolding rows ids_insertPromises by simp
  then have again: "insertPromises items (stored once) =
      (replicate (length items) (Some SQLITE_CONSTRAINT), stored once)"
    by (rule insertPromises_present)
  have twice: "run (events @ [Restart, seed, Restart, seed]) = step (step once Restart) seed"
    by (simp add: once_def run_def)
  have "handle_open (step once Restart)"
    by simp
  then have "stored (step (step once Restart) seed) =
      snd (insertPromises items (stored (step once Restart)))"
    unfolding seed_def by (rule stored_ingest_open)
  then have restarted: "stored (run (events @ [Restart, seed, Restart, seed])) = stored once"
    unfolding twice by (simp only: stored_restart again snd_conv)
  have same_process: "run (events @ [Restart, seed, seed]) = step once seed"
    by (simp add: once_def run_def)
  have "\<not> handle_open once"
    unfolding once seed_def using op by (rule closed_after_ingest)
  then have "stored (step once seed) = stored once"
    unfolding seed_def by (rule stored_ingest_closed)
  then have same: "stored (run (events @ [Restart, seed, seed])) = stored once"
    unfolding same_process .
  from distinct_run again restarted same show ?thesis by simp
qed


end
